theory Spec2Isabelle
  imports Main
begin

section \<open>JavaScript values\<close>

text \<open>
  Both plugins of \<^verbatim>\<open>packages/cli/src/plugins\<close> handle values that come out of
  \<^verbatim>\<open>JSON.parse\<close>: a cached ABI, a Hardhat artifact. A property that is absent reads as
  \<^verbatim>\<open>undefined\<close>, which is \<open>None\<close> of \<open>json option\<close>. Numbers are the integer-valued
  ones; strings are lists of code units. The list under \<open>JObj\<close> holds the own properties of
  the parsed object, each key once.
\<close>

datatype json =
    JNull
  | JBool bool
  | JNum int
  | JStr string
  | JArr "json list"
  | JObj "(string \<times> json) list"

text \<open>What \<^verbatim>\<open>if (v)\<close> and \<^verbatim>\<open>!v\<close> test.\<close>

fun truthy :: "json \<Rightarrow> bool" where
  "truthy JNull = False"
| "truthy (JBool b) = b"
| "truthy (JNum n) = (n \<noteq> 0)"
| "truthy (JStr s) = (s \<noteq> [])"
| "truthy (JArr xs) = True"
| "truthy (JObj kvs) = True"

fun truthy_opt :: "json option \<Rightarrow> bool" where
  "truthy_opt None = False"
| "truthy_opt (Some v) = truthy v"

text \<open>
  \<^verbatim>\<open>v.key\<close> on a value that is neither \<^verbatim>\<open>null\<close> nor \<^verbatim>\<open>undefined\<close>: an own property of
  an object, the \<^verbatim>\<open>length\<close> of an array or of a string, \<^verbatim>\<open>undefined\<close> otherwise. (The
  keys the plugins read are \<^verbatim>\<open>abi\<close>, \<^verbatim>\<open>contractName\<close> and \<^verbatim>\<open>length\<close>; no prototype
  has the first two.)
\<close>

fun get_prop :: "json \<Rightarrow> string \<Rightarrow> json option" where
  "get_prop (JObj kvs) k = map_of kvs k"
| "get_prop (JArr xs) k = (if k = ''length'' then Some (JNum (int (length xs))) else None)"
| "get_prop (JStr s) k = (if k = ''length'' then Some (JNum (int (length s))) else None)"
| "get_prop v k = None"

text \<open>\<^verbatim>\<open>v?.length\<close>: \<^verbatim>\<open>undefined\<close> when \<open>v\<close> is \<^verbatim>\<open>undefined\<close> or \<^verbatim>\<open>null\<close>.\<close>

fun optional_length :: "json option \<Rightarrow> json option" where
  "optional_length None = None"
| "optional_length (Some JNull) = None"
| "optional_length (Some v) = get_prop v ''length''"

text \<open>
  Decimal digits of a natural number, as \<^verbatim>\<open>String(n)\<close> prints an integer below
  \<open>10\<^sup>2\<^sup>1\<close>; from there on JavaScript prints an exponent, which is not modelled. The
  plugins print a number only where an artifact has a number for its \<^verbatim>\<open>contractName\<close>.
\<close>

fun digits :: "nat \<Rightarrow> string" where
  "digits n =
     (if n < 10 then [char_of (48 + n)]
      else digits (n div 10) @ [char_of (48 + n mod 10)])"

declare digits.simps [simp del]

definition number_to_string :: "int \<Rightarrow> string" where
  "number_to_string i = (if i < 0 then CHR ''-'' # digits (nat (- i)) else digits (nat i))"

fun join :: "string \<Rightarrow> string list \<Rightarrow> string" where
  "join sep [] = []"
| "join sep [p] = p"
| "join sep (p # q # ps) = p @ sep @ join sep (q # ps)"

text \<open>
  The string a template literal \<^verbatim>\<open>`${v}`\<close> puts in for a value: \<^verbatim>\<open>Array.prototype.join\<close>
  prints \<^verbatim>\<open>null\<close> elements as the empty string, an object prints as
  \<^verbatim>\<open>[object Object]\<close>.
\<close>

fun to_string :: "json \<Rightarrow> string" where
  "to_string JNull = ''null''"
| "to_string (JBool b) = (if b then ''true'' else ''false'')"
| "to_string (JNum n) = number_to_string n"
| "to_string (JStr s) = s"
| "to_string (JArr xs) = join '','' (map (\<lambda>x. if x = JNull then [] else to_string x) xs)"
| "to_string (JObj kvs) = ''[object Object]''"

fun template :: "json option \<Rightarrow> string" where
  "template None = ''undefined''"
| "template (Some v) = to_string v"

text \<open>\<^verbatim>\<open>s.split(d)\<close> for a one-character separator: never empty, \<^verbatim>\<open>''.split(' ')\<close> is \<^verbatim>\<open>['']\<close>.\<close>

fun split :: "char \<Rightarrow> string \<Rightarrow> string list" where
  "split d [] = [[]]"
| "split d (c # cs) =
     (if c = d then [] # split d cs
      else (case split d cs of [] \<Rightarrow> [[c]] | p # ps \<Rightarrow> (c # p) # ps))"

text \<open>\<^verbatim>\<open>s.replace(pat, rep)\<close> with a string pattern: the first occurrence only.\<close>

fun replace :: "string \<Rightarrow> string \<Rightarrow> string \<Rightarrow> string" where
  "replace [] pat rep = (if pat = [] then rep else [])"
| "replace (c # cs) pat rep =
     (if take (length pat) (c # cs) = pat then rep @ drop (length pat) (c # cs)
      else c # replace cs pat rep)"

section \<open>Errors, the file system and the environment\<close>

text \<open>
  Every \<^verbatim>\<open>throw\<close> and every rejected promise is a value of \<open>error\<close>. \<open>Rejected\<close> is
  what an external call rejects with (the network, a callback of the configuration, a child
  process); the others are the errors the modelled library calls raise themselves.
\<close>

datatype error =
    Rejected string
  | ENOENT string
  | EISDIR string
  | SyntaxError string
  | TypeError string
  | Error string

text \<open>A path names a directory, a file that holds a JSON value, or a file that does not parse.\<close>

datatype node = Directory | JsonFile json | OtherFile

text \<open>
  The calls whose order the specification speaks about are logged: a child process
  (executable, arguments, working directory), a glob scan, a completed write of a JSON
  file. Console output is not part of the model.
\<close>

datatype effect =
    Execa string "string list" string
  | Globby "string list"
  | WriteJSON string json

record world =
  fs :: "string \<rightharpoonup> node"
  trace :: "effect list"

record Request =
  url :: string
  init :: "string option"

type_synonym Response = string

text \<open>
  What the plugins do not decide themselves is a parameter: the outcome of a network
  request, of a write, of a child process (which may change the files) and of a glob scan,
  each of them free to depend on everything that happened before; \<^verbatim>\<open>getPackageManager\<close>
  of \<^verbatim>\<open>../utils\<close>; \<^verbatim>\<open>resolve\<close>, \<^verbatim>\<open>basename\<close> and \<^verbatim>\<open>extname\<close> of \<^verbatim>\<open>pathe\<close>; and the
  module constant \<^verbatim>\<open>cacheDir\<close>.
\<close>

record env =
  cacheDir :: string
  fetch_outcome :: "world \<Rightarrow> Request \<Rightarrow> error + Response"
  write_outcome :: "world \<Rightarrow> string \<Rightarrow> error option"
  process_outcome :: "world \<Rightarrow> string \<Rightarrow> string list \<Rightarrow> string \<Rightarrow> error option \<times> (string \<rightharpoonup> node)"
  glob_outcome :: "world \<Rightarrow> string list \<Rightarrow> error + string list"
  getPackageManager :: string
  resolve :: "string \<Rightarrow> string"
  basename :: "string \<Rightarrow> string"
  extname :: "string \<Rightarrow> string"

text \<open>\<^verbatim>\<open>fse.readJSON(path)\<close> rejects when the file is missing or does not parse.\<close>

definition readJSON :: "world \<Rightarrow> string \<Rightarrow> error + json" where
  "readJSON w path =
     (case fs w path of
        None \<Rightarrow> Inl (ENOENT path)
      | Some Directory \<Rightarrow> Inl (EISDIR path)
      | Some OtherFile \<Rightarrow> Inl (SyntaxError path)
      | Some (JsonFile v) \<Rightarrow> Inr v)"

definition writeJSON :: "env \<Rightarrow> string \<Rightarrow> json \<Rightarrow> world \<Rightarrow> (error + unit) \<times> world" where
  "writeJSON env path v w =
     (case write_outcome env w path of
        Some e \<Rightarrow> (Inl e, w)
      | None \<Rightarrow> (Inr (), w\<lparr>fs := (fs w)(path \<mapsto> JsonFile v), trace := trace w @ [WriteJSON path v]\<rparr>))"

definition pathExistsSync :: "world \<Rightarrow> string \<Rightarrow> bool" where
  "pathExistsSync w path = (fs w path \<noteq> None)"

definition execa :: "env \<Rightarrow> string \<Rightarrow> string list \<Rightarrow> string \<Rightarrow> world \<Rightarrow> (error + unit) \<times> world" where
  "execa env command options cwd w =
     (case process_outcome env w command options cwd of
        (failure, files) \<Rightarrow>
          ((case failure of Some e \<Rightarrow> Inl e | None \<Rightarrow> Inr ()),
           w\<lparr>fs := files, trace := trace w @ [Execa command options cwd]\<rparr>))"

definition globby :: "env \<Rightarrow> string list \<Rightarrow> world \<Rightarrow> (error + string list) \<times> world" where
  "globby env patterns w = (glob_outcome env w patterns, w\<lparr>trace := trace w @ [Globby patterns]\<rparr>)"

section \<open>The Fetch plugin\<close>

datatype address = Address string | ChainAddresses "(nat \<times> string) list"

text \<open>
  \<^verbatim>\<open>Omit<ContractConfig, 'abi'>\<close> and \<^verbatim>\<open>ContractConfig\<close>. The \<open>abi\<close> of a record is
  \<open>None\<close> where JavaScript has \<^verbatim>\<open>undefined\<close> (an artifact without the property).
\<close>

record contract_source =
  address :: "address option"
  name :: string

record contract_config = contract_source +
  abi :: "json option"

record fetch_config =
  contracts :: "contract_source list"
  getCacheKey :: "contract_source \<Rightarrow> string"
  parse :: "Response \<Rightarrow> error + json"
  request :: "contract_source \<Rightarrow> error + Request"

definition cacheFile :: "env \<Rightarrow> string \<Rightarrow> string" where
  "cacheFile env cacheKey = cacheDir env @ ''/'' @ cacheKey @ ''.json''"

text \<open>
  The \<^verbatim>\<open>try\<close> block of \<^verbatim>\<open>contracts()\<close>: \<^verbatim>\<open>nodeFetch(url, init)\<close>, then \<^verbatim>\<open>parse\<close>. The key
  function \<^verbatim>\<open>getCacheKey\<close> and \<^verbatim>\<open>parse\<close> are taken as the configuration gives them, after
  their defaults.
\<close>

definition fetch_and_parse :: "fetch_config \<Rightarrow> env \<Rightarrow> Request \<Rightarrow> world \<Rightarrow> error + json" where
  "fetch_and_parse cfg env req w =
     (case fetch_outcome env w req of Inl e \<Rightarrow> Inl e | Inr response \<Rightarrow> parse cfg response)"

text \<open>
  The whole \<^verbatim>\<open>try\<close>/\<^verbatim>\<open>catch\<close>: in the handler, the read of the cache file and
  \<^verbatim>\<open>if (!abi) throw error\<close>.
\<close>

definition fetch_or_cached :: "fetch_config \<Rightarrow> env \<Rightarrow> Request \<Rightarrow> string \<Rightarrow> world \<Rightarrow> error + json" where
  "fetch_or_cached cfg env req cacheKey w =
     (case fetch_and_parse cfg env req w of
        Inr abi' \<Rightarrow> Inr abi'
      | Inl error \<Rightarrow>
          (case readJSON w (cacheFile env cacheKey) of
             Inl e \<Rightarrow> Inl e
           | Inr abi' \<Rightarrow> if \<not> truthy abi' then Inl error else Inr abi'))"

text \<open>
  The body of the \<^verbatim>\<open>for\<close> loop of \<^verbatim>\<open>contracts()\<close>, for one contract of the
  configuration: the request, the cache key, the \<^verbatim>\<open>try\<close>/\<^verbatim>\<open>catch\<close>, the record that is
  pushed, and the write of the cache file.
\<close>

definition fetch_contract ::
  "fetch_config \<Rightarrow> env \<Rightarrow> contract_source \<Rightarrow> world \<Rightarrow> (error + contract_config) \<times> world" where
  "fetch_contract cfg env contract w =
     (case request cfg contract of
        Inl e \<Rightarrow> (Inl e, w)
      | Inr req \<Rightarrow>
          (let cacheKey = getCacheKey cfg contract in
           case fetch_or_cached cfg env req cacheKey w of
             Inl e \<Rightarrow> (Inl e, w)
           | Inr abi' \<Rightarrow>
               (case writeJSON env (cacheFile env cacheKey) abi' w of
                  (Inl e, w') \<Rightarrow> (Inl e, w')
                | (Inr u, w') \<Rightarrow>
                    (Inr \<lparr>address = address contract, name = name contract, abi = Some abi'\<rparr>, w'))))"

text \<open>The loop; \<open>acc\<close> is the array \<^verbatim>\<open>contracts\<close>. An error leaves the loop and the call.\<close>

fun fetch_loop ::
  "fetch_config \<Rightarrow> env \<Rightarrow> contract_source list \<Rightarrow> contract_config list \<Rightarrow> world
     \<Rightarrow> (error + contract_config list) \<times> world" where
  "fetch_loop cfg env [] acc w = (Inr acc, w)"
| "fetch_loop cfg env (contract # rest) acc w =
     (case fetch_contract cfg env contract w of
        (Inl e, w') \<Rightarrow> (Inl e, w')
      | (Inr c, w') \<Rightarrow> fetch_loop cfg env rest (acc @ [c]) w')"

definition fetch_contracts :: "fetch_config \<Rightarrow> env \<Rightarrow> world \<Rightarrow> (error + contract_config list) \<times> world" where
  "fetch_contracts cfg env w = fetch_loop cfg env (contracts cfg) [] w"

section \<open>The Hardhat plugin\<close>

text \<open>A command of the configuration: \<^verbatim>\<open>undefined\<close>, \<^verbatim>\<open>false\<close> or a string.\<close>

datatype command = Unset | Disabled | Command string

record hardhat_commands =
  clean :: command
  build :: command
  rebuild :: command

record hardhat_config =
  artifacts :: string
  exclude :: "string list"
  commands :: hardhat_commands
  include_globs :: "string list"
  namePrefix :: string
  project :: string
  sources :: string

text \<open>\<^verbatim>\<open>c ?? d\<close>, and the string that \<^verbatim>\<open>if (c)\<close> lets through: a non-empty one.\<close>

fun nullish :: "command \<Rightarrow> string \<Rightarrow> command" where
  "nullish Unset d = Command d"
| "nullish c d = c"

fun enabled :: "command \<Rightarrow> string option" where
  "enabled (Command c) = (if c = [] then None else Some c)"
| "enabled c = None"

definition getContractName :: "hardhat_config \<Rightarrow> json \<Rightarrow> string" where
  "getContractName cfg artifact = namePrefix cfg @ template (get_prop artifact ''contractName'')"

text \<open>Reading a property of \<^verbatim>\<open>null\<close> throws a \<^verbatim>\<open>TypeError\<close>.\<close>

definition getContract :: "hardhat_config \<Rightarrow> world \<Rightarrow> string \<Rightarrow> error + contract_config" where
  "getContract cfg w artifactPath =
     (case readJSON w artifactPath of
        Inl e \<Rightarrow> Inl e
      | Inr artifact \<Rightarrow>
          if artifact = JNull then Inl (TypeError ''abi'')
          else Inr \<lparr>address = None, name = getContractName cfg artifact, abi = get_prop artifact ''abi''\<rparr>)"

definition glob_patterns :: "hardhat_config \<Rightarrow> string \<Rightarrow> string list" where
  "glob_patterns cfg artifactsDirectory =
     map (\<lambda>x. artifactsDirectory @ ''/**/'' @ x) (include_globs cfg) @
     map (\<lambda>x. ''!'' @ artifactsDirectory @ ''/**/'' @ x) (exclude cfg)"

definition getArtifactPaths :: "hardhat_config \<Rightarrow> env \<Rightarrow> string \<Rightarrow> world \<Rightarrow> (error + string list) \<times> world" where
  "getArtifactPaths cfg env artifactsDirectory w = globby env (glob_patterns cfg artifactsDirectory) w"

definition artifactsDirectory :: "hardhat_config \<Rightarrow> string" where
  "artifactsDirectory cfg = project cfg @ ''/'' @ artifacts cfg"

definition sourcesDirectory :: "hardhat_config \<Rightarrow> string" where
  "sourcesDirectory cfg = project cfg @ ''/'' @ sources cfg"

text \<open>
  \<^verbatim>\<open>const [command, ...options] = c.split(' ')\<close> and
  \<^verbatim>\<open>execa(command!, options, { cwd: resolve(project) })\<close>, which the source writes out for
  each of the three commands.
\<close>

definition run_command :: "hardhat_config \<Rightarrow> env \<Rightarrow> string \<Rightarrow> world \<Rightarrow> (error + unit) \<times> world" where
  "run_command cfg env c w =
     (case split CHR '' '' c of
        [] \<Rightarrow> (Inl (TypeError ''command''), w)
      | command # options \<Rightarrow> execa env command options (resolve env (project cfg)) w)"

definition run_if_enabled :: "hardhat_config \<Rightarrow> env \<Rightarrow> command \<Rightarrow> world \<Rightarrow> (error + unit) \<times> world" where
  "run_if_enabled cfg env c w =
     (case enabled c of None \<Rightarrow> (Inr (), w) | Some text \<Rightarrow> run_command cfg env text w)"

text \<open>The loop of \<^verbatim>\<open>contracts()\<close> over the artifact paths.\<close>

fun collect_contracts ::
  "hardhat_config \<Rightarrow> world \<Rightarrow> string list \<Rightarrow> contract_config list \<Rightarrow> error + contract_config list" where
  "collect_contracts cfg w [] acc = Inr acc"
| "collect_contracts cfg w (artifactPath # rest) acc =
     (case getContract cfg w artifactPath of
        Inl e \<Rightarrow> Inl e
      | Inr contract \<Rightarrow>
          if \<not> truthy_opt (optional_length (abi contract)) then collect_contracts cfg w rest acc
          else collect_contracts cfg w rest (acc @ [contract]))"

definition clean_command :: "hardhat_config \<Rightarrow> env \<Rightarrow> command" where
  "clean_command cfg env = nullish (clean (commands cfg)) (getPackageManager env @ '' hardhat clean'')"

definition build_command :: "hardhat_config \<Rightarrow> env \<Rightarrow> command" where
  "build_command cfg env = nullish (build (commands cfg)) (getPackageManager env @ '' hardhat compile'')"

definition hardhat_contracts :: "hardhat_config \<Rightarrow> env \<Rightarrow> world \<Rightarrow> (error + contract_config list) \<times> world" where
  "hardhat_contracts cfg env w =
     (case run_if_enabled cfg env (clean_command cfg env) w of
        (Inl e, w1) \<Rightarrow> (Inl e, w1)
      | (Inr u, w1) \<Rightarrow>
          (case run_if_enabled cfg env (build_command cfg env) w1 of
             (Inl e, w2) \<Rightarrow> (Inl e, w2)
           | (Inr u, w2) \<Rightarrow>
               if \<not> pathExistsSync w2 (artifactsDirectory cfg)
               then (Inl (Error ''Artifacts not found.''), w2)
               else (case getArtifactPaths cfg env (artifactsDirectory cfg) w2 of
                       (Inl e, w3) \<Rightarrow> (Inl e, w3)
                     | (Inr artifactPaths, w3) \<Rightarrow> (collect_contracts cfg w3 artifactPaths [], w3))))"

definition hardhat_validate :: "hardhat_config \<Rightarrow> env \<Rightarrow> world \<Rightarrow> (error + unit) \<times> world" where
  "hardhat_validate cfg env w =
     (if clean (commands cfg) = Unset \<or> build (commands cfg) = Unset \<or> rebuild (commands cfg) = Unset
      then
        (let packageManager = getPackageManager env in
         case execa env packageManager [''hardhat'', ''--version''] (resolve env (project cfg)) w of
           (Inl error, w') \<Rightarrow>
             (let install = (if packageManager = ''npm'' then ''install --save'' else ''add'') in
              (Inl (Error (''hardhat must be installed to use Hardhat plugin.'' @ [CHR 0x0A] @
                           ''To install, run: '' @ packageManager @ '' '' @ install @ '' hardhat.'')), w'))
         | (Inr u, w') \<Rightarrow> (Inr (), w'))
      else (Inr (), w))"

text \<open>
  \<^verbatim>\<open>watch.command\<close> is defined when \<^verbatim>\<open>commands.rebuild ?? true\<close> is truthy. Its listener
  for \<^verbatim>\<open>'all'\<close> starts the process of \<^verbatim>\<open>commands.rebuild || `${...} hardhat compile`\<close>
  and does not wait for it: what the process answers is dropped.
\<close>

definition watch_command_defined :: "hardhat_config \<Rightarrow> bool" where
  "watch_command_defined cfg =
     (case rebuild (commands cfg) of Unset \<Rightarrow> True | c \<Rightarrow> enabled c \<noteq> None)"

definition rebuild_text :: "hardhat_config \<Rightarrow> env \<Rightarrow> string" where
  "rebuild_text cfg env =
     (case enabled (rebuild (commands cfg)) of
        Some c \<Rightarrow> c
      | None \<Rightarrow> getPackageManager env @ '' hardhat compile'')"

definition on_all :: "hardhat_config \<Rightarrow> env \<Rightarrow> string \<Rightarrow> world \<Rightarrow> world" where
  "on_all cfg env event w =
     (if event \<noteq> ''change'' \<and> event \<noteq> ''add'' \<and> event \<noteq> ''unlink'' then w
      else snd (run_command cfg env (rebuild_text cfg env) w))"

text \<open>\<^verbatim>\<open>watch.onRemove\<close>: the name guessed from the path, and the loop over the artifacts.\<close>

definition removedContractName :: "hardhat_config \<Rightarrow> env \<Rightarrow> string \<Rightarrow> string" where
  "removedContractName cfg env path =
     (let filename = basename env path; extension = extname env path
      in namePrefix cfg @ replace filename extension [])"

fun onRemove_scan :: "hardhat_config \<Rightarrow> world \<Rightarrow> string \<Rightarrow> string list \<Rightarrow> error + string option" where
  "onRemove_scan cfg w removed [] = Inr (Some removed)"
| "onRemove_scan cfg w removed (artifactPath # rest) =
     (case getContract cfg w artifactPath of
        Inl e \<Rightarrow> Inl e
      | Inr contract \<Rightarrow>
          if name contract = removed then Inr None else onRemove_scan cfg w removed rest)"

definition onRemove :: "hardhat_config \<Rightarrow> env \<Rightarrow> string \<Rightarrow> world \<Rightarrow> (error + string option) \<times> world" where
  "onRemove cfg env path w =
     (case getArtifactPaths cfg env (artifactsDirectory cfg) w of
        (Inl e, w') \<Rightarrow> (Inl e, w')
      | (Inr artifactPaths, w') \<Rightarrow>
          (onRemove_scan cfg w' (removedContractName cfg env path) artifactPaths, w'))"

text \<open>The process a command string stands for: its first piece, the other pieces, the project.\<close>

abbreviation process_of :: "hardhat_config \<Rightarrow> env \<Rightarrow> string \<Rightarrow> effect" where
  "process_of cfg env c \<equiv>
     Execa (hd (split CHR '' '' c)) (tl (split CHR '' '' c)) (resolve env (project cfg))"

abbreviation process_list :: "hardhat_config \<Rightarrow> env \<Rightarrow> command \<Rightarrow> effect list" where
  "process_list cfg env c \<equiv> (case enabled c of None \<Rightarrow> [] | Some t \<Rightarrow> [process_of cfg env t])"

text \<open>
  The reading of the specification, for comparison: a command string is cut at every run
  of whitespace, and no piece is empty.
\<close>

definition is_whitespace :: "char \<Rightarrow> bool" where
  "is_whitespace c = (c = CHR '' '' \<or> c = CHR 0x09 \<or> c = CHR 0x0A \<or> c = CHR 0x0B \<or> c = CHR 0x0C \<or> c = CHR 0x0D)"

fun split_when :: "(char \<Rightarrow> bool) \<Rightarrow> string \<Rightarrow> string list" where
  "split_when sep [] = [[]]"
| "split_when sep (c # cs) =
     (if sep c then [] # split_when sep cs
      else (case split_when sep cs of [] \<Rightarrow> [[c]] | p # ps \<Rightarrow> (c # p) # ps))"

definition spec_split_whitespace :: "string \<Rightarrow> string list" where
  "spec_split_whitespace c = filter (\<lambda>p. p \<noteq> []) (split_when is_whitespace c)"

section \<open>Example configurations\<close>

text \<open>The defaults of the arguments of \<^verbatim>\<open>hardhat\<close>, for a project path.\<close>

definition hardhat_defaults :: "string \<Rightarrow> hardhat_config" where
  "hardhat_defaults p =
     \<lparr>artifacts = ''artifacts'', exclude = [''build-info/**'', ''*.dbg.json''],
      commands = \<lparr>clean = Unset, build = Unset, rebuild = Unset\<rparr>,
      include_globs = [''*.json''], namePrefix = [], project = p, sources = ''contracts''\<rparr>"

text \<open>
  An environment in which the network is down, writes and processes succeed and change no
  file, a scan finds nothing, and paths are POSIX paths.
\<close>

definition example_extname :: "string \<Rightarrow> string" where
  "example_extname p =
     (let pieces = split CHR ''.'' (last (split CHR ''/'' p))
      in if length pieces < 2 \<or> butlast pieces = [[]] then [] else CHR ''.'' # last pieces)"

definition example_env :: env where
  "example_env =
     \<lparr>cacheDir = ''cache'',
      fetch_outcome = (\<lambda>w req. Inl (Rejected ''offline'')),
      write_outcome = (\<lambda>w path. None),
      process_outcome = (\<lambda>w command options cwd. (None, fs w)),
      glob_outcome = (\<lambda>w patterns. Inr []),
      getPackageManager = ''npm'',
      resolve = (\<lambda>p. p),
      basename = (\<lambda>p. last (split CHR ''/'' p)),
      extname = example_extname\<rparr>"

definition token_source :: contract_source where
  "token_source = \<lparr>address = Some (Address ''0xabc''), name = ''Token''\<rparr>"

definition example_fetch_config :: fetch_config where
  "example_fetch_config =
     \<lparr>contracts = [token_source],
      getCacheKey = (\<lambda>c. case address c of Some (Address a) \<Rightarrow> a | _ \<Rightarrow> ''undefined''),
      parse = (\<lambda>response. if response = ''[]'' then Inr (JArr []) else Inl (SyntaxError response)),
      request = (\<lambda>c. Inr \<lparr>url = ''https://abi.example/'', init = None\<rparr>)\<rparr>"

definition token_abi :: json where
  "token_abi = JArr [JObj [(''type'', JStr ''constructor'')]]"

definition empty_world :: world where
  "empty_world = \<lparr>fs = Map.empty, trace = []\<rparr>"

text \<open>A project with two artifacts: an interface with an empty ABI and a contract.\<close>

definition project_world :: world where
  "project_world =
     \<lparr>fs = [''app/artifacts'' \<mapsto> Directory,
            ''app/artifacts/IToken.json'' \<mapsto>
               JsonFile (JObj [(''contractName'', JStr ''IToken''), (''abi'', JArr [])]),
            ''app/artifacts/Token.json'' \<mapsto>
               JsonFile (JObj [(''contractName'', JStr ''Token''), (''abi'', token_abi)])],
      trace = []\<rparr>"

definition project_env :: env where
  "project_env =
     example_env\<lparr>glob_outcome :=
       (\<lambda>w patterns. Inr [''app/artifacts/IToken.json'', ''app/artifacts/Token.json''])\<rparr>"

text \<open>The cache of the Fetch plugin after an earlier successful run.\<close>

definition cached_world :: world where
  "cached_world = \<lparr>fs = [''cache/0xabc.json'' \<mapsto> JsonFile token_abi], trace = []\<rparr>"

text \<open>A scan that still finds the artifact of the contract, and nothing else.\<close>

definition token_only_env :: env where
  "token_only_env = example_env\<lparr>glob_outcome := (\<lambda>w patterns. Inr [''app/artifacts/Token.json''])\<rparr>"

text \<open>The same project where the compiler exits with an error.\<close>

definition failing_build_env :: env where
  "failing_build_env =
     project_env\<lparr>process_outcome := (\<lambda>w command options cwd.
        (if options = [''hardhat'', ''compile''] then Some (Rejected ''exit 1'') else None, fs w))\<rparr>"

text \<open>A configuration whose clean command has two spaces after the executable.\<close>

definition spaced_config :: hardhat_config where
  "spaced_config =
     (hardhat_defaults ''app'')\<lparr>commands :=
        \<lparr>clean = Command ''npx  hardhat clean'', build = Disabled, rebuild = Disabled\<rparr>\<rparr>"

text \<open>An environment in which the cache directory cannot be written.\<close>

definition readonly_cache_env :: env where
  "readonly_cache_env = example_env\<lparr>write_outcome := (\<lambda>w path. Some (Rejected ''EACCES''))\<rparr>"

text \<open>
  A cache file that holds \<^verbatim>\<open>null\<close>, as an earlier run leaves it when the response parsed
  to \<^verbatim>\<open>null\<close>.
\<close>

definition null_cached_world :: world where
  "null_cached_world = \<lparr>fs = [''cache/0xabc.json'' \<mapsto> JsonFile JNull], trace = []\<rparr>"

section \<open>Lemmas about the model\<close>

lemma join_Cons: "join sep (p # ps) = (if ps = [] then p else p @ sep @ join sep ps)"
  by (cases ps) auto

lemma split_nonempty: "split d s \<noteq> []"
  by (induction s) (auto split: list.splits)

lemma join_split: "join [d] (split d s) = s"
  by (induction s) (auto simp: join_Cons split_nonempty split: list.splits)

lemma split_pieces: "p \<in> set (split d s) \<Longrightarrow> d \<notin> set p"
  by (induction s arbitrary: p) (auto split: list.splits if_splits)

lemma getContract_trace [simp]: "getContract cfg (w\<lparr>trace := t\<rparr>) p = getContract cfg w p"
  by (simp add: getContract_def readJSON_def)

lemma collect_contracts_trace [simp]:
  "collect_contracts cfg (w\<lparr>trace := t\<rparr>) ps acc = collect_contracts cfg w ps acc"
  by (induction ps arbitrary: acc) (auto split: sum.splits)

lemma onRemove_scan_trace [simp]:
  "onRemove_scan cfg (w\<lparr>trace := t\<rparr>) r ps = onRemove_scan cfg w r ps"
  by (induction ps) (auto split: sum.splits)

lemma collect_contracts_kept:
  "collect_contracts cfg w ps acc = Inr cs \<Longrightarrow>
   \<forall>c\<in>set acc. truthy_opt (optional_length (abi c)) \<Longrightarrow>
   \<forall>c\<in>set cs. truthy_opt (optional_length (abi c))"
proof (induction ps arbitrary: acc)
  case Nil
  then show ?case by simp
next
  case (Cons p ps)
  from Cons.prems(1) obtain c where c: "getContract cfg w p = Inr c"
    by (cases "getContract cfg w p") auto
  show ?case
  proof (cases "truthy_opt (optional_length (abi c))")
    case True
    with c Cons.prems(1) have "collect_contracts cfg w ps (acc @ [c]) = Inr cs"
      by simp
    moreover from True Cons.prems(2)
    have "\<forall>x\<in>set (acc @ [c]). truthy_opt (optional_length (abi x))"
      by simp
    ultimately show ?thesis by (rule Cons.IH)
  next
    case False
    with c Cons.prems(1) have "collect_contracts cfg w ps acc = Inr cs"
      by simp
    then show ?thesis using Cons.prems(2) by (rule Cons.IH)
  qed
qed

lemma collect_contracts_readable:
  "collect_contracts cfg w ps acc = Inr cs \<Longrightarrow> p \<in> set ps \<Longrightarrow> \<exists>c. getContract cfg w p = Inr c"
proof (induction ps arbitrary: acc)
  case Nil
  then show ?case by simp
next
  case (Cons q ps)
  from Cons.prems(1) obtain c where c: "getContract cfg w q = Inr c"
    by (cases "getContract cfg w q") auto
  show ?case
  proof (cases "p = q")
    case True
    with c show ?thesis by simp
  next
    case False
    with Cons.prems(2) have p: "p \<in> set ps" by simp
    from c Cons.prems(1) obtain acc' where "collect_contracts cfg w ps acc' = Inr cs"
      by (cases "truthy_opt (optional_length (abi c))") simp_all
    then show ?thesis using p by (rule Cons.IH)
  qed
qed

lemma onRemove_scan_readable:
  "\<forall>p\<in>set ps. \<exists>c. getContract cfg w p = Inr c \<Longrightarrow>
   onRemove_scan cfg w r ps =
     Inr (if (\<exists>p\<in>set ps. \<exists>c. getContract cfg w p = Inr c \<and> name c = r) then None else Some r)"
proof (induction ps)
  case Nil
  then show ?case by simp
next
  case (Cons p ps)
  then obtain c where c: "getContract cfg w p = Inr c" by auto
  from Cons have IH: "onRemove_scan cfg w r ps =
     Inr (if (\<exists>p\<in>set ps. \<exists>c. getContract cfg w p = Inr c \<and> name c = r) then None else Some r)"
    by simp
  show ?case
  proof (cases "name c = r")
    case True
    with c show ?thesis by auto
  next
    case False
    with c IH show ?thesis by simp
  qed
qed

lemma run_command_execa:
  "run_command cfg env c w =
     execa env (hd (split CHR '' '' c)) (tl (split CHR '' '' c)) (resolve env (project cfg)) w"
  using split_nonempty [of "CHR '' ''" c] by (auto simp: run_command_def split: list.splits)

lemma trace_execa: "trace (snd (execa env command options cwd w)) = trace w @ [Execa command options cwd]"
  by (simp add: execa_def split: prod.splits)

lemma trace_run_command: "trace (snd (run_command cfg env c w)) = trace w @ [process_of cfg env c]"
  by (simp add: run_command_execa trace_execa)

lemma trace_run_if_enabled:
  "trace (snd (run_if_enabled cfg env c w)) = trace w @ process_list cfg env c"
  by (simp add: run_if_enabled_def trace_run_command split: option.splits)

lemma trace_run_if_enabled_eq:
  "run_if_enabled cfg env c w = (r, w') \<Longrightarrow> trace w' = trace w @ process_list cfg env c"
  using trace_run_if_enabled [of cfg env c w] by simp

lemma trace_getArtifactPaths:
  "getArtifactPaths cfg env d w = (r, w') \<Longrightarrow>
   w' = w\<lparr>trace := trace w @ [Globby (glob_patterns cfg d)]\<rparr> \<and> r = glob_outcome env w (glob_patterns cfg d)"
  by (auto simp: getArtifactPaths_def globby_def)

lemma hardhat_contracts_cases:
  obtains (clean_failed) e w1 where
      "run_if_enabled cfg env (clean_command cfg env) w = (Inl e, w1)"
      "hardhat_contracts cfg env w = (Inl e, w1)"
  | (build_failed) w1 e w2 where
      "run_if_enabled cfg env (clean_command cfg env) w = (Inr (), w1)"
      "run_if_enabled cfg env (build_command cfg env) w1 = (Inl e, w2)"
      "hardhat_contracts cfg env w = (Inl e, w2)"
  | (no_artifacts) w1 w2 where
      "run_if_enabled cfg env (clean_command cfg env) w = (Inr (), w1)"
      "run_if_enabled cfg env (build_command cfg env) w1 = (Inr (), w2)"
      "\<not> pathExistsSync w2 (artifactsDirectory cfg)"
      "hardhat_contracts cfg env w = (Inl (Error ''Artifacts not found.''), w2)"
  | (scan_failed) w1 w2 e w3 where
      "run_if_enabled cfg env (clean_command cfg env) w = (Inr (), w1)"
      "run_if_enabled cfg env (build_command cfg env) w1 = (Inr (), w2)"
      "pathExistsSync w2 (artifactsDirectory cfg)"
      "getArtifactPaths cfg env (artifactsDirectory cfg) w2 = (Inl e, w3)"
      "hardhat_contracts cfg env w = (Inl e, w3)"
  | (scanned) w1 w2 paths w3 where
      "run_if_enabled cfg env (clean_command cfg env) w = (Inr (), w1)"
      "run_if_enabled cfg env (build_command cfg env) w1 = (Inr (), w2)"
      "pathExistsSync w2 (artifactsDirectory cfg)"
      "getArtifactPaths cfg env (artifactsDirectory cfg) w2 = (Inr paths, w3)"
      "hardhat_contracts cfg env w = (collect_contracts cfg w3 paths [], w3)"
proof (cases "run_if_enabled cfg env (clean_command cfg env) w")
  case c: (Pair r1 w1)
  show ?thesis
  proof (cases r1)
    case (Inl e)
    with c show ?thesis by (intro clean_failed [of e w1]) (simp_all add: hardhat_contracts_def)
  next
    case r1: (Inr u)
    show ?thesis
    proof (cases "run_if_enabled cfg env (build_command cfg env) w1")
      case b: (Pair r2 w2)
      show ?thesis
      proof (cases r2)
        case (Inl e)
        with c r1 b show ?thesis
          by (intro build_failed [of w1 e w2]) (simp_all add: hardhat_contracts_def)
      next
        case r2: (Inr u2)
        show ?thesis
        proof (cases "pathExistsSync w2 (artifactsDirectory cfg)")
          case False
          with c r1 b r2 show ?thesis
            by (intro no_artifacts [of w1 w2]) (simp_all add: hardhat_contracts_def)
        next
          case True
          show ?thesis
          proof (cases "getArtifactPaths cfg env (artifactsDirectory cfg) w2")
            case g: (Pair r3 w3)
            show ?thesis
            proof (cases r3)
              case (Inl e)
              with c r1 b r2 True g show ?thesis
                by (intro scan_failed [of w1 w2 e w3]) (simp_all add: hardhat_contracts_def)
            next
              case (Inr paths)
              with c r1 b r2 True g show ?thesis
                by (intro scanned [of w1 w2 paths w3]) (simp_all add: hardhat_contracts_def)
            qed
          qed
        qed
      qed
    qed
  qed
qed

lemma fetch_contract_writes:
  assumes "fetch_contract cfg env c w = (Inr r, w')"
  shows "\<exists>v. r = \<lparr>address = address c, name = name c, abi = Some v\<rparr> \<and>
     fs w' = (fs w)(cacheFile env (getCacheKey cfg c) \<mapsto> JsonFile v) \<and>
     trace w' = trace w @ [WriteJSON (cacheFile env (getCacheKey cfg c)) v]"
proof -
  from assms obtain req where req: "request cfg c = Inr req"
    by (cases "request cfg c") (simp_all add: fetch_contract_def)
  from assms req obtain v where v: "fetch_or_cached cfg env req (getCacheKey cfg c) w = Inr v"
    by (cases "fetch_or_cached cfg env req (getCacheKey cfg c) w")
      (simp_all add: fetch_contract_def)
  from assms req v have no: "write_outcome env w (cacheFile env (getCacheKey cfg c)) = None"
    by (cases "write_outcome env w (cacheFile env (getCacheKey cfg c))")
      (simp_all add: fetch_contract_def writeJSON_def)
  from assms req v no show ?thesis
    by (auto simp: fetch_contract_def writeJSON_def Let_def)
qed

lemma fetch_loop_writes:
  "fetch_loop cfg env cs acc w = (Inr rs, w') \<Longrightarrow>
   \<exists>abis. length abis = length cs \<and>
     rs = acc @ map2 (\<lambda>c a. \<lparr>address = address c, name = name c, abi = Some a\<rparr>) cs abis \<and>
     trace w' = trace w @ map2 (\<lambda>c a. WriteJSON (cacheFile env (getCacheKey cfg c)) a) cs abis"
proof (induction cs arbitrary: acc w)
  case Nil
  then show ?case by simp
next
  case (Cons c cs)
  from Cons.prems obtain r w1 where
    step: "fetch_contract cfg env c w = (Inr r, w1)" and
    rest: "fetch_loop cfg env cs (acc @ [r]) w1 = (Inr rs, w')"
    by (auto split: sum.splits prod.splits)
  from fetch_contract_writes [OF step] obtain v where
    r: "r = \<lparr>address = address c, name = name c, abi = Some v\<rparr>" and
    tr: "trace w1 = trace w @ [WriteJSON (cacheFile env (getCacheKey cfg c)) v]"
    by blast
  from Cons.IH [OF rest] obtain abis where
    "length abis = length cs"
    "rs = (acc @ [r]) @
       map2 (\<lambda>c a. \<lparr>address = address c, name = name c, abi = Some a\<rparr>) cs abis"
    "trace w' = trace w1 @ map2 (\<lambda>c a. WriteJSON (cacheFile env (getCacheKey cfg c)) a) cs abis"
    by blast
  with r tr show ?case
    by (intro exI [of _ "v # abis"]) simp
qed

lemma map2_names:
  "length abis = length cs \<Longrightarrow>
   map name (map2 (\<lambda>c a. \<lparr>address = address c, name = name c, abi = Some a\<rparr>) cs abis) = map name cs"
  by (induction abis cs rule: list_induct2) simp_all

lemma fetch_loop_append:
  "fetch_loop cfg env (xs @ ys) acc w =
     (case fetch_loop cfg env xs acc w of
        (Inl e, w') \<Rightarrow> (Inl e, w')
      | (Inr acc', w') \<Rightarrow> fetch_loop cfg env ys acc' w')"
proof (induction xs arbitrary: acc w)
  case Nil
  show ?case by simp
next
  case (Cons x xs)
  obtain r w1 where step: "fetch_contract cfg env x w = (r, w1)"
    by force
  show ?case
  proof (cases r)
    case (Inl e)
    with step show ?thesis by simp
  next
    case (Inr c)
    with step Cons.IH [of "acc @ [c]" w1] show ?thesis by simp
  qed
qed

lemma fetch_loop_length:
  assumes "fetch_loop cfg env cs acc w = (Inr rs, w')"
  shows "length rs = length acc + length cs \<and> take (length acc) rs = acc"
proof -
  from fetch_loop_writes [OF assms] obtain abis where
    len: "length abis = length cs" and
    rs: "rs = acc @ map2 (\<lambda>c a. \<lparr>address = address c, name = name c, abi = Some a\<rparr>) cs abis"
    by blast
  from len show ?thesis unfolding rs by simp
qed

lemma fetch_cache_miss:
  "fetch_and_parse cfg env req w = Inl e \<Longrightarrow> fs w (cacheFile env cacheKey) = None \<Longrightarrow>
   fetch_or_cached cfg env req cacheKey w = Inl (ENOENT (cacheFile env cacheKey))"
  by (simp add: fetch_or_cached_def readJSON_def)

lemma fetch_cache_falsy:
  "fetch_and_parse cfg env req w = Inl e \<Longrightarrow> fs w (cacheFile env cacheKey) = Some (JsonFile v) \<Longrightarrow>
   \<not> truthy v \<Longrightarrow> fetch_or_cached cfg env req cacheKey w = Inl e"
  by (simp add: fetch_or_cached_def readJSON_def)

lemma map2_written:
  "length abis = length cs \<Longrightarrow>
   map2 (\<lambda>c r. WriteJSON (f c) (the (abi r))) cs
     (map2 (\<lambda>c a. \<lparr>address = address c, name = name c, abi = Some a\<rparr>) cs abis) =
   map2 (\<lambda>c a. WriteJSON (f c) a) cs abis"
  by (induction abis cs rule: list_induct2) simp_all

lemma map2_resolved:
  "length abis = length cs \<Longrightarrow>
   r \<in> set (map2 (\<lambda>c a. \<lparr>address = address c, name = name c, abi = Some a\<rparr>) cs abis) \<Longrightarrow>
   abi r \<noteq> None"
  by (induction abis cs rule: list_induct2) auto

lemma hardhat_contracts_trace:
  "trace (snd (hardhat_contracts cfg env w)) =
     trace w @ process_list cfg env (clean_command cfg env) @
       (if isl (fst (run_if_enabled cfg env (clean_command cfg env) w)) then []
        else process_list cfg env (build_command cfg env) @
          (if isl (fst (run_if_enabled cfg env (build_command cfg env)
                          (snd (run_if_enabled cfg env (clean_command cfg env) w)))) \<or>
              \<not> pathExistsSync
                  (snd (run_if_enabled cfg env (build_command cfg env)
                          (snd (run_if_enabled cfg env (clean_command cfg env) w))))
                  (artifactsDirectory cfg)
           then [] else [Globby (glob_patterns cfg (artifactsDirectory cfg))]))"
proof (cases rule: hardhat_contracts_cases [of cfg env w])
  case (clean_failed e w1)
  from trace_run_if_enabled_eq [OF clean_failed(1)] clean_failed show ?thesis
    by simp
next
  case (build_failed w1 e w2)
  from trace_run_if_enabled_eq [OF build_failed(1)] trace_run_if_enabled_eq [OF build_failed(2)]
    build_failed show ?thesis
    by simp
next
  case (no_artifacts w1 w2)
  from trace_run_if_enabled_eq [OF no_artifacts(1)] trace_run_if_enabled_eq [OF no_artifacts(2)]
    no_artifacts show ?thesis
    by simp
next
  case (scan_failed w1 w2 e w3)
  from trace_run_if_enabled_eq [OF scan_failed(1)] trace_run_if_enabled_eq [OF scan_failed(2)]
    trace_getArtifactPaths [OF scan_failed(4)] scan_failed show ?thesis
    by simp
next
  case (scanned w1 w2 paths w3)
  from trace_run_if_enabled_eq [OF scanned(1)] trace_run_if_enabled_eq [OF scanned(2)]
    trace_getArtifactPaths [OF scanned(4)] scanned show ?thesis
    by simp
qed

lemma hardhat_contracts_trace_clean:
  "\<exists>rest. trace (snd (hardhat_contracts cfg env w)) =
     trace w @ process_list cfg env (clean_command cfg env) @ rest"
  unfolding hardhat_contracts_trace by blast

lemma hardhat_contracts_trace_build:
  assumes "fst (run_if_enabled cfg env (clean_command cfg env) w) = Inr ()"
  shows "\<exists>rest. trace (snd (hardhat_contracts cfg env w)) =
     trace w @ process_list cfg env (clean_command cfg env) @
       process_list cfg env (build_command cfg env) @ rest"
  unfolding hardhat_contracts_trace using assms by simp

section \<open>The example runs\<close>

lemma cached_resolve:
  "fetch_or_cached example_fetch_config example_env \<lparr>url = ''https://abi.example/'', init = None\<rparr>
     (getCacheKey example_fetch_config token_source) cached_world = Inr token_abi"
  by (simp add: example_fetch_config_def example_env_def cached_world_def token_source_def
      fetch_and_parse_def fetch_or_cached_def readJSON_def cacheFile_def token_abi_def)

lemma project_run:
  "fst (hardhat_contracts (hardhat_defaults ''app'') project_env project_world) =
     Inr [\<lparr>address = None, name = ''Token'', abi = Some token_abi\<rparr>]"
  by (simp add: hardhat_contracts_def run_if_enabled_def clean_command_def build_command_def
      run_command_def execa_def pathExistsSync_def getArtifactPaths_def globby_def
      glob_patterns_def artifactsDirectory_def getContract_def readJSON_def getContractName_def
      hardhat_defaults_def project_env_def example_env_def project_world_def token_abi_def)

lemma project_processes:
  "process_list (hardhat_defaults ''app'') project_env
      (clean_command (hardhat_defaults ''app'') project_env) =
     [Execa ''npm'' [''hardhat'', ''clean''] ''app'']"
  "process_list (hardhat_defaults ''app'') project_env
      (build_command (hardhat_defaults ''app'') project_env) =
     [Execa ''npm'' [''hardhat'', ''compile''] ''app'']"
  "glob_patterns (hardhat_defaults ''app'') (artifactsDirectory (hardhat_defaults ''app'')) =
     [''app/artifacts/**/*.json'', ''!app/artifacts/**/build-info/**'',
      ''!app/artifacts/**/*.dbg.json'']"
  by (simp_all add: clean_command_def build_command_def glob_patterns_def artifactsDirectory_def
      hardhat_defaults_def project_env_def example_env_def)

lemma project_scan:
  "glob_outcome project_env project_world
     (glob_patterns (hardhat_defaults ''app'') (artifactsDirectory (hardhat_defaults ''app''))) =
   Inr [''app/artifacts/IToken.json'', ''app/artifacts/Token.json'']"
  by (simp add: project_env_def)

lemma project_IToken:
  "getContract (hardhat_defaults ''app'') project_world ''app/artifacts/IToken.json'' =
     Inr \<lparr>address = None, name = ''IToken'', abi = Some (JArr [])\<rparr>"
  by (simp add: getContract_def readJSON_def getContractName_def hardhat_defaults_def
      project_world_def)

lemma project_Token:
  "getContract (hardhat_defaults ''app'') project_world ''app/artifacts/Token.json'' =
     Inr \<lparr>address = None, name = ''Token'', abi = Some token_abi\<rparr>"
  by (simp add: getContract_def readJSON_def getContractName_def hardhat_defaults_def
      project_world_def)

lemma removed_Token:
  "removedContractName (hardhat_defaults ''app'') project_env ''app/artifacts/Token.json'' = ''Token''"
  by (simp add: removedContractName_def hardhat_defaults_def project_env_def example_env_def
      example_extname_def Let_def)

lemma removed_Vault:
  "removedContractName (hardhat_defaults ''app'') project_env ''app/artifacts/Vault.json'' = ''Vault''"
  by (simp add: removedContractName_def hardhat_defaults_def project_env_def example_env_def
      example_extname_def Let_def)

lemma token_only_scan:
  "glob_outcome token_only_env project_world
     (glob_patterns (hardhat_defaults ''app'') (artifactsDirectory (hardhat_defaults ''app''))) =
   Inr [''app/artifacts/Token.json'']"
  by (simp add: token_only_env_def)

lemma token_only_removed:
  "removedContractName (hardhat_defaults ''app'') token_only_env ''app/artifacts/Token.json'' = ''Token''"
  by (simp add: removedContractName_def hardhat_defaults_def token_only_env_def example_env_def
      example_extname_def Let_def)

lemma rebuild_default: "rebuild_text (hardhat_defaults ''app'') example_env = ''npm hardhat compile''"
  by (simp add: rebuild_text_def hardhat_defaults_def example_env_def)

lemma failing_clean:
  "run_if_enabled (hardhat_defaults ''app'') failing_build_env
      (clean_command (hardhat_defaults ''app'') failing_build_env) project_world =
   (Inr (), project_world\<lparr>trace := [Execa ''npm'' [''hardhat'', ''clean''] ''app'']\<rparr>)"
  by (simp add: run_if_enabled_def clean_command_def run_command_def execa_def
      hardhat_defaults_def failing_build_env_def project_env_def example_env_def project_world_def)

lemma failing_build:
  "run_if_enabled (hardhat_defaults ''app'') failing_build_env
      (build_command (hardhat_defaults ''app'') failing_build_env)
      (project_world\<lparr>trace := [Execa ''npm'' [''hardhat'', ''clean''] ''app'']\<rparr>) =
   (Inl (Rejected ''exit 1''),
    project_world\<lparr>trace := [Execa ''npm'' [''hardhat'', ''clean''] ''app'',
                             Execa ''npm'' [''hardhat'', ''compile''] ''app'']\<rparr>)"
  by (simp add: run_if_enabled_def build_command_def run_command_def execa_def
      hardhat_defaults_def failing_build_env_def project_env_def example_env_def project_world_def)

section \<open>The claims\<close>

subsection \<open>Fetch plugin\<close>

text \<open>
  Claim C1: when the fetch (or the parse) of a contract's ABI fails and there is no cache
  entry under the contract's cache key, \<^verbatim>\<open>contracts()\<close> fails with the error of the fetch
  itself. The handler reads the cache file before it rethrows, and \<^verbatim>\<open>readJSON\<close> rejects a
  missing file (\<open>fetch_cache_miss\<close>); \<^verbatim>\<open>if (!abi) throw error\<close> is reached only for a file
  that holds a falsy value (\<open>fetch_cache_falsy\<close>). In the run below the network rejects with
  \<open>Rejected ''offline''\<close> and no file exists: the call fails with \<open>ENOENT\<close> of the cache
  file, and the network error is lost.
\<close>

theorem fetch_empty_cache_raises_read_error:
  "fetch_contracts example_fetch_config example_env empty_world =
     (Inl (ENOENT ''cache/0xabc.json''), empty_world)"
  by (simp add: fetch_contracts_def example_fetch_config_def example_env_def empty_world_def
      token_source_def fetch_contract_def fetch_or_cached_def fetch_and_parse_def readJSON_def
      cacheFile_def Let_def)

text \<open>
  Claim C2 as stated, for every plugin: no record of the result has an empty ABI. It fails
  for the Fetch plugin, which pushes whatever the parse returned: here the response parses to
  the empty array, and the record is returned.
\<close>

theorem fetch_keeps_empty_abi:
  "fst (fetch_contracts example_fetch_config
          (example_env\<lparr>fetch_outcome := (\<lambda>w req. Inr ''[]'')\<rparr>) empty_world) =
     Inr [\<lparr>address = Some (Address ''0xabc''), name = ''Token'', abi = Some (JArr [])\<rparr>]"
  by (simp add: fetch_contracts_def example_fetch_config_def example_env_def empty_world_def
      token_source_def fetch_contract_def fetch_or_cached_def fetch_and_parse_def writeJSON_def
      cacheFile_def Let_def)

text \<open>
  Claim C2, amended: on success the Hardhat plugin's \<^verbatim>\<open>contracts()\<close> returns no record
  whose ABI is the empty sequence; every record it returns has a truthy \<^verbatim>\<open>abi?.length\<close>
  (an artifact without \<^verbatim>\<open>abi\<close>, with \<^verbatim>\<open>null\<close> or with an empty one is skipped). The Fetch
  plugin filters nothing: on success it returns one record for each contract of the
  configuration, in order.
\<close>

theorem hardhat_contracts_drop_empty_abi:
  "(fst (hardhat_contracts cfg env w) = Inr cs \<longrightarrow>
      (\<forall>c\<in>set cs. abi c \<noteq> Some (JArr []) \<and> truthy_opt (optional_length (abi c)))) \<and>
   (fst (fetch_contracts fcfg env w) = Inr rs \<longrightarrow> map name rs = map name (contracts fcfg))"
proof (intro conjI impI)
  assume ok: "fst (hardhat_contracts cfg env w) = Inr cs"
  have "\<forall>c\<in>set cs. truthy_opt (optional_length (abi c))"
  proof (cases rule: hardhat_contracts_cases [of cfg env w])
    case (scanned w1 w2 paths w3)
    with ok have "collect_contracts cfg w3 paths [] = Inr cs" by simp
    then show ?thesis by (rule collect_contracts_kept) simp
  qed (use ok in simp_all)
  then show "\<forall>c\<in>set cs. abi c \<noteq> Some (JArr []) \<and> truthy_opt (optional_length (abi c))"
    by auto
next
  assume ok: "fst (fetch_contracts fcfg env w) = Inr rs"
  then obtain w' where "fetch_loop fcfg env (contracts fcfg) [] w = (Inr rs, w')"
    by (cases "fetch_loop fcfg env (contracts fcfg) [] w") (simp add: fetch_contracts_def)
  from fetch_loop_writes [OF this] obtain abis where
    len: "length abis = length (contracts fcfg)" and
    rs: "rs = [] @ map2 (\<lambda>c a. \<lparr>address = address c, name = name c, abi = Some a\<rparr>)
           (contracts fcfg) abis"
    by blast
  show "map name rs = map name (contracts fcfg)"
    unfolding rs using map2_names [OF len] by simp
qed

text \<open>
  In the example project the scan finds the interface (empty ABI) and the contract; only the
  contract is returned.
\<close>

theorem hardhat_contracts_drop_empty_abi_witness:
  "fst (hardhat_contracts (hardhat_defaults ''app'') project_env project_world) =
     Inr [\<lparr>address = None, name = ''Token'', abi = Some token_abi\<rparr>] \<and>
   abi \<lparr>address = None, name = ''Token'', abi = Some token_abi\<rparr> \<noteq> Some (JArr []) \<and>
   fs project_world ''app/artifacts/IToken.json'' =
     Some (JsonFile (JObj [(''contractName'', JStr ''IToken''), (''abi'', JArr [])]))"
  using hardhat_contracts_drop_empty_abi [of "hardhat_defaults ''app''" project_env project_world
      "[\<lparr>address = None, name = ''Token'', abi = Some token_abi\<rparr>]"] project_run
  by (simp add: project_world_def)

text \<open>
  Claim C3 as stated: when the fetch (or the parse) for a contract fails and a cache entry
  exists under its key, the call does not throw for that contract and returns the cached ABI.
  Two runs with the network down and a cache file under the key of the contract: where the
  cache cannot be written, the write that follows the \<^verbatim>\<open>try\<close>/\<^verbatim>\<open>catch\<close> fails the call;
  where the file holds \<^verbatim>\<open>null\<close>, \<^verbatim>\<open>if (!abi) throw error\<close> rethrows the error of the fetch.
\<close>

theorem fetch_cache_entry_can_throw:
  "fetch_and_parse example_fetch_config readonly_cache_env
      \<lparr>url = ''https://abi.example/'', init = None\<rparr> cached_world = Inl (Rejected ''offline'') \<and>
   fs cached_world ''cache/0xabc.json'' = Some (JsonFile token_abi) \<and>
   fetch_contracts example_fetch_config readonly_cache_env cached_world =
     (Inl (Rejected ''EACCES''), cached_world) \<and>
   fs null_cached_world ''cache/0xabc.json'' = Some (JsonFile JNull) \<and>
   fetch_contracts example_fetch_config example_env null_cached_world =
     (Inl (Rejected ''offline''), null_cached_world)"
  by (simp add: fetch_contracts_def example_fetch_config_def readonly_cache_env_def example_env_def
      cached_world_def null_cached_world_def token_source_def fetch_contract_def
      fetch_or_cached_def fetch_and_parse_def readJSON_def writeJSON_def cacheFile_def
      token_abi_def Let_def)

text \<open>
  Claim C3, amended: when the fetch (or the parse) for a contract fails, the cache file of
  its key holds a truthy value (every array, so every ABI, is one) and the write of the cache
  file that follows succeeds, \<^verbatim>\<open>contracts()\<close> does not throw for that contract: the call
  goes on with the remaining contracts, the record pushed for the contract has the cached
  value as its ABI, and a call that returns a list has that record at the position of the
  contract. When the write fails, the call fails with the error of the write; when the cached
  value is falsy, it fails with the error of the fetch. Here \<open>pre\<close> are the contracts before
  the one in question, resolved with the records \<open>acc\<close> and leaving the world \<open>w\<close>.
\<close>

theorem fetch_failure_uses_cache:
  assumes cs: "contracts cfg = pre @ c # rest"
    and pre: "fetch_loop cfg env pre [] w0 = (Inr acc, w)"
    and req: "request cfg c = Inr req"
    and fail: "fetch_and_parse cfg env req w = Inl e"
    and cache: "fs w (cacheFile env (getCacheKey cfg c)) = Some (JsonFile v)"
  shows
    "(truthy v \<and> write_outcome env w (cacheFile env (getCacheKey cfg c)) = None \<longrightarrow>
        fetch_contract cfg env c w =
          (Inr \<lparr>address = address c, name = name c, abi = Some v\<rparr>,
           w\<lparr>fs := (fs w)(cacheFile env (getCacheKey cfg c) \<mapsto> JsonFile v),
              trace := trace w @ [WriteJSON (cacheFile env (getCacheKey cfg c)) v]\<rparr>) \<and>
        fetch_contracts cfg env w0 =
          fetch_loop cfg env rest (acc @ [\<lparr>address = address c, name = name c, abi = Some v\<rparr>])
            (w\<lparr>fs := (fs w)(cacheFile env (getCacheKey cfg c) \<mapsto> JsonFile v),
               trace := trace w @ [WriteJSON (cacheFile env (getCacheKey cfg c)) v]\<rparr>) \<and>
        (rest = [] \<longrightarrow>
           fetch_contracts cfg env w0 =
             (Inr (acc @ [\<lparr>address = address c, name = name c, abi = Some v\<rparr>]),
              w\<lparr>fs := (fs w)(cacheFile env (getCacheKey cfg c) \<mapsto> JsonFile v),
                 trace := trace w @ [WriteJSON (cacheFile env (getCacheKey cfg c)) v]\<rparr>)) \<and>
        (fetch_contracts cfg env w0 = (Inr rs, w'') \<longrightarrow>
           length pre < length rs \<and>
           rs ! length pre = \<lparr>address = address c, name = name c, abi = Some v\<rparr>)) \<and>
     (truthy v \<and> write_outcome env w (cacheFile env (getCacheKey cfg c)) = Some e' \<longrightarrow>
        fetch_contracts cfg env w0 = (Inl e', w)) \<and>
     (\<not> truthy v \<longrightarrow> fetch_contracts cfg env w0 = (Inl e, w))"
proof -
  let ?path = "cacheFile env (getCacheKey cfg c)"
  let ?r = "\<lparr>address = address c, name = name c, abi = Some v\<rparr>"
  let ?w = "w\<lparr>fs := (fs w)(?path \<mapsto> JsonFile v), trace := trace w @ [WriteJSON ?path v]\<rparr>"
  have call: "fetch_contracts cfg env w0 =
      (case fetch_contract cfg env c w of
         (Inl e, w') \<Rightarrow> (Inl e, w')
       | (Inr r, w') \<Rightarrow> fetch_loop cfg env rest (acc @ [r]) w')"
    by (simp add: fetch_contracts_def cs fetch_loop_append pre)
  have ok: "fetch_contract cfg env c w = (Inr ?r, ?w)"
    if "truthy v" "write_outcome env w ?path = None"
    using that req fail cache
    by (simp add: fetch_contract_def fetch_or_cached_def readJSON_def writeJSON_def Let_def)
  have wfail: "fetch_contract cfg env c w = (Inl e', w)"
    if "truthy v" "write_outcome env w ?path = Some e'"
    using that req fail cache
    by (simp add: fetch_contract_def fetch_or_cached_def readJSON_def writeJSON_def Let_def)
  have falsy: "fetch_contract cfg env c w = (Inl e, w)" if "\<not> truthy v"
    using that req fail cache
    by (simp add: fetch_contract_def fetch_or_cached_def readJSON_def Let_def)
  have position: "length pre < length rs \<and> rs ! length pre = ?r"
    if t: "truthy v" "write_outcome env w ?path = None"
      and res: "fetch_contracts cfg env w0 = (Inr rs, w'')"
  proof -
    from res call ok [OF t] have "fetch_loop cfg env rest (acc @ [?r]) ?w = (Inr rs, w'')"
      by simp
    from fetch_loop_length [OF this]
    have len: "length rs = length (acc @ [?r]) + length rest"
      and tk: "take (length (acc @ [?r])) rs = acc @ [?r]"
      by simp_all
    from fetch_loop_length [OF pre] have la: "length acc = length pre"
      by simp
    from len la have lt: "length pre < length rs"
      by simp
    have "rs ! length pre = take (length (acc @ [?r])) rs ! length pre"
      using la by simp
    also have "\<dots> = ?r"
      unfolding tk using la by (simp add: nth_append)
    finally show ?thesis using lt by simp
  qed
  show ?thesis
    using call ok wfail falsy position by simp
qed

text \<open>
  With the network down and the ABI of the token in the cache, the call returns the token
  with the cached ABI.
\<close>

theorem fetch_failure_uses_cache_witness:
  "fetch_and_parse example_fetch_config example_env \<lparr>url = ''https://abi.example/'', init = None\<rparr>
      cached_world = Inl (Rejected ''offline'') \<and>
   fs cached_world ''cache/0xabc.json'' = Some (JsonFile token_abi) \<and>
   fetch_contracts example_fetch_config example_env cached_world =
     (Inr [\<lparr>address = address token_source, name = name token_source, abi = Some token_abi\<rparr>],
      cached_world\<lparr>fs := (fs cached_world)(''cache/0xabc.json'' \<mapsto> JsonFile token_abi),
        trace := trace cached_world @ [WriteJSON ''cache/0xabc.json'' token_abi]\<rparr>)"
proof -
  let ?req = "\<lparr>url = ''https://abi.example/'', init = None\<rparr>"
  let ?path = "cacheFile example_env (getCacheKey example_fetch_config token_source)"
  have p: "?path = ''cache/0xabc.json''"
    by (simp add: cacheFile_def example_env_def example_fetch_config_def token_source_def)
  have cs: "contracts example_fetch_config = [] @ token_source # []"
    by (simp add: example_fetch_config_def)
  have pre: "fetch_loop example_fetch_config example_env [] [] cached_world = (Inr [], cached_world)"
    by simp
  have h1: "request example_fetch_config token_source = Inr ?req"
    by (simp add: example_fetch_config_def)
  have h2: "fetch_and_parse example_fetch_config example_env ?req cached_world = Inl (Rejected ''offline'')"
    by (simp add: fetch_and_parse_def example_env_def)
  have h3: "fs cached_world ?path = Some (JsonFile token_abi)"
    by (simp add: p cached_world_def)
  have h4: "truthy token_abi"
    by (simp add: token_abi_def)
  have h5: "write_outcome example_env cached_world ?path = None"
    by (simp add: example_env_def)
  from fetch_failure_uses_cache [OF cs pre h1 h2 h3] h4 h5
  have "fetch_contracts example_fetch_config example_env cached_world =
     (Inr ([] @ [\<lparr>address = address token_source, name = name token_source, abi = Some token_abi\<rparr>]),
      cached_world\<lparr>fs := (fs cached_world)(?path \<mapsto> JsonFile token_abi),
        trace := trace cached_world @ [WriteJSON ?path token_abi]\<rparr>)"
    by blast
  then have "fetch_contracts example_fetch_config example_env cached_world =
     (Inr [\<lparr>address = address token_source, name = name token_source, abi = Some token_abi\<rparr>],
      cached_world\<lparr>fs := (fs cached_world)(''cache/0xabc.json'' \<mapsto> JsonFile token_abi),
        trace := trace cached_world @ [WriteJSON ''cache/0xabc.json'' token_abi]\<rparr>)"
    unfolding p by simp
  with h2 h3 [unfolded p] show ?thesis
    by (intro conjI)
qed

text \<open>
  Claim C10: every contract that is resolved has its ABI written to the cache file of its
  key, after the resolution and whatever the source of the ABI was: \<open>fetch_or_cached\<close>
  returns the fetched value as well as the cached one, and the write follows both. For the
  whole call: when it succeeds, the writes it made are exactly the ABIs of the records it
  returns, each to the cache file of its contract, in the order of the configuration.
\<close>

theorem fetch_contracts_rewrites_cache:
  "(request cfg c = Inr req \<and> fetch_or_cached cfg env req (getCacheKey cfg c) w = Inr v \<and>
    write_outcome env w (cacheFile env (getCacheKey cfg c)) = None \<longrightarrow>
      fetch_contract cfg env c w =
        (Inr \<lparr>address = address c, name = name c, abi = Some v\<rparr>,
         w\<lparr>fs := (fs w)(cacheFile env (getCacheKey cfg c) \<mapsto> JsonFile v),
            trace := trace w @ [WriteJSON (cacheFile env (getCacheKey cfg c)) v]\<rparr>)) \<and>
   (fetch_contracts cfg env w = (Inr rs, w') \<longrightarrow>
      length rs = length (contracts cfg) \<and> (\<forall>r\<in>set rs. abi r \<noteq> None) \<and>
      trace w' = trace w @
        map2 (\<lambda>c r. WriteJSON (cacheFile env (getCacheKey cfg c)) (the (abi r))) (contracts cfg) rs)"
proof (intro conjI impI)
  assume "request cfg c = Inr req \<and> fetch_or_cached cfg env req (getCacheKey cfg c) w = Inr v \<and>
    write_outcome env w (cacheFile env (getCacheKey cfg c)) = None"
  then show "fetch_contract cfg env c w =
        (Inr \<lparr>address = address c, name = name c, abi = Some v\<rparr>,
         w\<lparr>fs := (fs w)(cacheFile env (getCacheKey cfg c) \<mapsto> JsonFile v),
            trace := trace w @ [WriteJSON (cacheFile env (getCacheKey cfg c)) v]\<rparr>)"
    by (simp add: fetch_contract_def writeJSON_def Let_def)
next
  assume "fetch_contracts cfg env w = (Inr rs, w')"
  then have "fetch_loop cfg env (contracts cfg) [] w = (Inr rs, w')"
    by (simp add: fetch_contracts_def)
  from fetch_loop_writes [OF this] obtain abis where
    len: "length abis = length (contracts cfg)" and
    rs: "rs = map2 (\<lambda>c a. \<lparr>address = address c, name = name c, abi = Some a\<rparr>) (contracts cfg) abis" and
    tr: "trace w' = trace w @
       map2 (\<lambda>c a. WriteJSON (cacheFile env (getCacheKey cfg c)) a) (contracts cfg) abis"
    by auto
  from len rs show "length rs = length (contracts cfg)"
    by simp
  from len rs show "\<forall>r\<in>set rs. abi r \<noteq> None"
    using map2_resolved [of abis "contracts cfg"] by blast
  from len show "trace w' = trace w @
        map2 (\<lambda>c r. WriteJSON (cacheFile env (getCacheKey cfg c)) (the (abi r))) (contracts cfg) rs"
    unfolding tr rs by (simp only: map2_written)
qed

text \<open>The fetch fails, the ABI comes from the cache, and the same value is written back.\<close>

theorem fetch_contracts_rewrites_cache_witness:
  "fetch_and_parse example_fetch_config example_env \<lparr>url = ''https://abi.example/'', init = None\<rparr>
      cached_world = Inl (Rejected ''offline'') \<and>
   fetch_contract example_fetch_config example_env token_source cached_world =
     (Inr \<lparr>address = address token_source, name = name token_source, abi = Some token_abi\<rparr>,
      cached_world\<lparr>fs := (fs cached_world)(''cache/0xabc.json'' \<mapsto> JsonFile token_abi),
        trace := trace cached_world @ [WriteJSON ''cache/0xabc.json'' token_abi]\<rparr>)"
proof -
  let ?req = "\<lparr>url = ''https://abi.example/'', init = None\<rparr>"
  let ?path = "cacheFile example_env (getCacheKey example_fetch_config token_source)"
  have p: "?path = ''cache/0xabc.json''"
    by (simp add: cacheFile_def example_env_def example_fetch_config_def token_source_def)
  have h1: "request example_fetch_config token_source = Inr ?req"
    by (simp add: example_fetch_config_def)
  have h2: "fetch_and_parse example_fetch_config example_env ?req cached_world = Inl (Rejected ''offline'')"
    by (simp add: fetch_and_parse_def example_env_def)
  have h3: "write_outcome example_env cached_world ?path = None"
    by (simp add: example_env_def)
  from fetch_contracts_rewrites_cache [of example_fetch_config token_source ?req example_env
      cached_world token_abi]
  have "fetch_contract example_fetch_config example_env token_source cached_world =
     (Inr \<lparr>address = address token_source, name = name token_source, abi = Some token_abi\<rparr>,
      cached_world\<lparr>fs := (fs cached_world)(?path \<mapsto> JsonFile token_abi),
        trace := trace cached_world @ [WriteJSON ?path token_abi]\<rparr>)"
    using h1 cached_resolve h3 by blast
  with h2 show ?thesis
    unfolding p by (intro conjI)
qed

subsection \<open>Hardhat plugin\<close>

text \<open>
  Claim C4: \<^verbatim>\<open>watch.onRemove(path)\<close> scans the artifacts again; when every artifact the scan
  finds can be read, it returns \<^verbatim>\<open>undefined\<close> (\<open>None\<close>) if one of them yields a contract
  whose name is the name derived from the removed path, and the derived name otherwise.
  (An artifact that cannot be read makes the hook fail when the loop reaches it.)
\<close>

theorem onRemove_result:
  assumes "glob_outcome env w (glob_patterns cfg (artifactsDirectory cfg)) = Inr paths"
    and "\<forall>p\<in>set paths. \<exists>c. getContract cfg w p = Inr c"
  shows "fst (onRemove cfg env path w) =
     Inr (if (\<exists>p\<in>set paths. \<exists>c. getContract cfg w p = Inr c \<and>
                 name c = removedContractName cfg env path)
          then None else Some (removedContractName cfg env path))"
  using assms onRemove_scan_readable [of paths cfg w "removedContractName cfg env path"]
  by (simp add: onRemove_def getArtifactPaths_def globby_def)

text \<open>
  In the example project \<^verbatim>\<open>Token.json\<close> is still found by the scan, so its removal is
  suppressed; no artifact is named \<^verbatim>\<open>Vault\<close>, so that name is returned.
\<close>

theorem onRemove_result_witness:
  "fst (onRemove (hardhat_defaults ''app'') project_env ''app/artifacts/Token.json'' project_world) =
     Inr None \<and>
   fst (onRemove (hardhat_defaults ''app'') project_env ''app/artifacts/Vault.json'' project_world) =
     Inr (Some ''Vault'')"
proof -
  have readable: "\<forall>p\<in>set [''app/artifacts/IToken.json'', ''app/artifacts/Token.json''].
      \<exists>c. getContract (hardhat_defaults ''app'') project_world p = Inr c"
    by (simp add: project_IToken project_Token)
  from onRemove_result [OF project_scan readable, of "''app/artifacts/Token.json''"]
  have a: "fst (onRemove (hardhat_defaults ''app'') project_env ''app/artifacts/Token.json''
      project_world) = Inr None"
    by (simp add: project_IToken project_Token removed_Token)
  from onRemove_result [OF project_scan readable, of "''app/artifacts/Vault.json''"]
  have b: "fst (onRemove (hardhat_defaults ''app'') project_env ''app/artifacts/Vault.json''
      project_world) = Inr (Some ''Vault'')"
    by (simp add: project_IToken project_Token removed_Vault)
  from a b show ?thesis by simp
qed

text \<open>
  Claim C5: the scan of \<^verbatim>\<open>onRemove\<close> does not leave out the removed path. If that path is
  still among the scanned artifacts, and its artifact has the name derived from the path,
  the hook returns \<^verbatim>\<open>undefined\<close>: the removal is suppressed although no other file defines
  the contract.
\<close>

theorem onRemove_counts_removed_path:
  assumes "glob_outcome env w (glob_patterns cfg (artifactsDirectory cfg)) = Inr paths"
    and "\<forall>p\<in>set paths. \<exists>c. getContract cfg w p = Inr c"
    and "path \<in> set paths"
    and "getContract cfg w path = Inr c"
    and "name c = removedContractName cfg env path"
  shows "fst (onRemove cfg env path w) = Inr None"
proof -
  from assms(3-5) have "\<exists>p\<in>set paths. \<exists>c. getContract cfg w p = Inr c \<and>
      name c = removedContractName cfg env path"
    by blast
  with assms(1,2) onRemove_scan_readable [of paths cfg w "removedContractName cfg env path"]
  show ?thesis
    by (simp add: onRemove_def getArtifactPaths_def globby_def)
qed

text \<open>The scan finds \<^verbatim>\<open>Token.json\<close> only, and that is the file being removed.\<close>

theorem onRemove_counts_removed_path_witness:
  "glob_outcome token_only_env project_world
     (glob_patterns (hardhat_defaults ''app'') (artifactsDirectory (hardhat_defaults ''app''))) =
     Inr [''app/artifacts/Token.json''] \<and>
   fst (onRemove (hardhat_defaults ''app'') token_only_env ''app/artifacts/Token.json''
          project_world) = Inr None"
proof -
  have readable: "\<forall>p\<in>set [''app/artifacts/Token.json''].
      \<exists>c. getContract (hardhat_defaults ''app'') project_world p = Inr c"
    by (simp add: project_Token)
  have mem: "''app/artifacts/Token.json'' \<in> set [''app/artifacts/Token.json'']"
    by simp
  have nm: "name \<lparr>address = None, name = ''Token'', abi = Some token_abi\<rparr> =
      removedContractName (hardhat_defaults ''app'') token_only_env ''app/artifacts/Token.json''"
    by (simp add: token_only_removed)
  from onRemove_counts_removed_path [OF token_only_scan readable mem project_Token nm]
    token_only_scan
  show ?thesis by (intro conjI)
qed

text \<open>
  Claim C6: the listener of the watch command returns without starting the rebuild process
  for every event other than \<^verbatim>\<open>change\<close>, \<^verbatim>\<open>add\<close> and \<^verbatim>\<open>unlink\<close> (the world is unchanged),
  and starts exactly that process for each of the three.
\<close>

theorem on_all_filters_events:
  "(event \<noteq> ''change'' \<and> event \<noteq> ''add'' \<and> event \<noteq> ''unlink'' \<longrightarrow> on_all cfg env event w = w) \<and>
   trace (on_all cfg env event w) =
     trace w @ (if event = ''change'' \<or> event = ''add'' \<or> event = ''unlink''
                then [process_of cfg env (rebuild_text cfg env)] else [])"
  by (simp add: on_all_def trace_run_command)

text \<open>\<^verbatim>\<open>addDir\<close> and \<^verbatim>\<open>unlinkDir\<close> start nothing; \<^verbatim>\<open>change\<close> starts the default rebuild.\<close>

theorem on_all_filters_events_witness:
  "on_all (hardhat_defaults ''app'') example_env ''addDir'' empty_world = empty_world \<and>
   trace (on_all (hardhat_defaults ''app'') example_env ''unlinkDir'' empty_world) = [] \<and>
   trace (on_all (hardhat_defaults ''app'') example_env ''change'' empty_world) =
     [Execa ''npm'' [''hardhat'', ''compile''] ''app'']"
  using on_all_filters_events [of "''addDir''" "hardhat_defaults ''app''" example_env empty_world]
    on_all_filters_events [of "''unlinkDir''" "hardhat_defaults ''app''" example_env empty_world]
    on_all_filters_events [of "''change''" "hardhat_defaults ''app''" example_env empty_world]
  by (simp add: rebuild_default) (simp add: empty_world_def hardhat_defaults_def example_env_def)

text \<open>
  Claim C7: \<^verbatim>\<open>validate()\<close> runs \<^verbatim>\<open>hardhat --version\<close> if and only if one of
  \<^verbatim>\<open>commands.clean\<close>, \<^verbatim>\<open>commands.build\<close>, \<^verbatim>\<open>commands.rebuild\<close> is \<^verbatim>\<open>undefined\<close>; when the
  three are given (\<^verbatim>\<open>false\<close> counts), it starts no process and succeeds.
\<close>

theorem hardhat_validate_probe:
  "trace (snd (hardhat_validate cfg env w)) =
     trace w @
       (if clean (commands cfg) = Unset \<or> build (commands cfg) = Unset \<or> rebuild (commands cfg) = Unset
        then [Execa (getPackageManager env) [''hardhat'', ''--version''] (resolve env (project cfg))]
        else []) \<and>
   (clean (commands cfg) \<noteq> Unset \<and> build (commands cfg) \<noteq> Unset \<and> rebuild (commands cfg) \<noteq> Unset
      \<longrightarrow> hardhat_validate cfg env w = (Inr (), w))"
proof -
  obtain r w' where e: "execa env (getPackageManager env) [''hardhat'', ''--version'']
      (resolve env (project cfg)) w = (r, w')"
    by force
  with trace_execa [of env "getPackageManager env" "[''hardhat'', ''--version'']"
      "resolve env (project cfg)" w]
  have "trace w' = trace w @
      [Execa (getPackageManager env) [''hardhat'', ''--version''] (resolve env (project cfg))]"
    by simp
  with e show ?thesis
    by (cases r) (simp_all add: hardhat_validate_def Let_def)
qed

text \<open>With the three commands given there is no probe; with the defaults there is one.\<close>

theorem hardhat_validate_probe_witness:
  "hardhat_validate
     ((hardhat_defaults ''app'')\<lparr>commands := \<lparr>clean = Disabled, build = Command ''make'', rebuild = Disabled\<rparr>\<rparr>)
     example_env empty_world = (Inr (), empty_world) \<and>
   trace (snd (hardhat_validate (hardhat_defaults ''app'') example_env empty_world)) =
     [Execa ''npm'' [''hardhat'', ''--version''] ''app'']"
  using hardhat_validate_probe [of
      "(hardhat_defaults ''app'')\<lparr>commands := \<lparr>clean = Disabled, build = Command ''make'', rebuild = Disabled\<rparr>\<rparr>"
      example_env empty_world]
    hardhat_validate_probe [of "hardhat_defaults ''app''" example_env empty_world]
  by (simp add: hardhat_defaults_def example_env_def empty_world_def)

text \<open>
  Claim C8: \<^verbatim>\<open>contracts()\<close> runs the clean command (when enabled), then the build command
  (when enabled), then the scan of the artifacts, and a failure of any of them is the failure
  of the call: the effects of a call are always the processes of clean, then of build, then
  the scan, cut where the call stopped; a failing clean or build ends the call with that
  error, before anything later runs; and a call that returns a list has run all three, each
  with success, and has read every artifact the scan found. The result is either an error
  or a list, so a failing call returns no list.
\<close>

theorem hardhat_contracts_lifecycle:
  assumes run: "hardhat_contracts cfg env w = (r, w')"
  shows
    "(trace w' = trace w @ process_list cfg env (clean_command cfg env) \<or>
      trace w' = trace w @ process_list cfg env (clean_command cfg env) @
                   process_list cfg env (build_command cfg env) \<or>
      trace w' = trace w @ process_list cfg env (clean_command cfg env) @
                   process_list cfg env (build_command cfg env) @
                   [Globby (glob_patterns cfg (artifactsDirectory cfg))]) \<and>
     (run_if_enabled cfg env (clean_command cfg env) w = (Inl e1, v1) \<longrightarrow>
        r = Inl e1 \<and> w' = v1 \<and> trace w' = trace w @ process_list cfg env (clean_command cfg env)) \<and>
     (run_if_enabled cfg env (clean_command cfg env) w = (Inr (), u1) \<and>
      run_if_enabled cfg env (build_command cfg env) u1 = (Inl e2, u2) \<longrightarrow>
        r = Inl e2 \<and> w' = u2 \<and>
        trace w' = trace w @ process_list cfg env (clean_command cfg env) @
                     process_list cfg env (build_command cfg env)) \<and>
     (r = Inr cs \<longrightarrow>
        trace w' = trace w @ process_list cfg env (clean_command cfg env) @
                     process_list cfg env (build_command cfg env) @
                     [Globby (glob_patterns cfg (artifactsDirectory cfg))] \<and>
        (\<exists>w1 w2 paths.
           run_if_enabled cfg env (clean_command cfg env) w = (Inr (), w1) \<and>
           run_if_enabled cfg env (build_command cfg env) w1 = (Inr (), w2) \<and>
           pathExistsSync w2 (artifactsDirectory cfg) \<and>
           getArtifactPaths cfg env (artifactsDirectory cfg) w2 = (Inr paths, w') \<and>
           (\<forall>p\<in>set paths. \<exists>c. getContract cfg w' p = Inr c) \<and>
           collect_contracts cfg w' paths [] = Inr cs))"
proof -
  note tr = hardhat_contracts_trace [of cfg env w, unfolded run snd_conv]
  have order: "trace w' = trace w @ process_list cfg env (clean_command cfg env) \<or>
      trace w' = trace w @ process_list cfg env (clean_command cfg env) @
                   process_list cfg env (build_command cfg env) \<or>
      trace w' = trace w @ process_list cfg env (clean_command cfg env) @
                   process_list cfg env (build_command cfg env) @
                   [Globby (glob_patterns cfg (artifactsDirectory cfg))]"
    unfolding tr by simp
  have clean_fails: "r = Inl e1 \<and> w' = v1 \<and>
      trace w' = trace w @ process_list cfg env (clean_command cfg env)"
    if c: "run_if_enabled cfg env (clean_command cfg env) w = (Inl e1, v1)"
  proof -
    from c run have "r = Inl e1 \<and> w' = v1"
      by (simp add: hardhat_contracts_def)
    with trace_run_if_enabled_eq [OF c] show ?thesis by simp
  qed
  have build_fails: "r = Inl e2 \<and> w' = u2 \<and>
      trace w' = trace w @ process_list cfg env (clean_command cfg env) @
                   process_list cfg env (build_command cfg env)"
    if c: "run_if_enabled cfg env (clean_command cfg env) w = (Inr (), u1)"
      and b: "run_if_enabled cfg env (build_command cfg env) u1 = (Inl e2, u2)"
  proof -
    from c b run have "r = Inl e2 \<and> w' = u2"
      by (simp add: hardhat_contracts_def)
    with trace_run_if_enabled_eq [OF c] trace_run_if_enabled_eq [OF b] show ?thesis by simp
  qed
  have success: "trace w' = trace w @ process_list cfg env (clean_command cfg env) @
                     process_list cfg env (build_command cfg env) @
                     [Globby (glob_patterns cfg (artifactsDirectory cfg))] \<and>
        (\<exists>w1 w2 paths.
           run_if_enabled cfg env (clean_command cfg env) w = (Inr (), w1) \<and>
           run_if_enabled cfg env (build_command cfg env) w1 = (Inr (), w2) \<and>
           pathExistsSync w2 (artifactsDirectory cfg) \<and>
           getArtifactPaths cfg env (artifactsDirectory cfg) w2 = (Inr paths, w') \<and>
           (\<forall>p\<in>set paths. \<exists>c. getContract cfg w' p = Inr c) \<and>
           collect_contracts cfg w' paths [] = Inr cs)"
    if ok: "r = Inr cs"
  proof (cases rule: hardhat_contracts_cases [of cfg env w])
    case (scanned w1 w2 paths w3)
    from scanned(5) run ok have coll: "collect_contracts cfg w' paths [] = Inr cs" and w3: "w3 = w'"
      by simp_all
    from collect_contracts_readable [OF coll]
    have readable: "\<forall>p\<in>set paths. \<exists>c. getContract cfg w' p = Inr c"
      by blast
    from trace_run_if_enabled_eq [OF scanned(1)] trace_run_if_enabled_eq [OF scanned(2)]
      trace_getArtifactPaths [OF scanned(4)] w3
    have "trace w' = trace w @ process_list cfg env (clean_command cfg env) @
                     process_list cfg env (build_command cfg env) @
                     [Globby (glob_patterns cfg (artifactsDirectory cfg))]"
      by auto
    moreover from scanned(1-4) w3 readable coll
    have "\<exists>w1 w2 paths.
           run_if_enabled cfg env (clean_command cfg env) w = (Inr (), w1) \<and>
           run_if_enabled cfg env (build_command cfg env) w1 = (Inr (), w2) \<and>
           pathExistsSync w2 (artifactsDirectory cfg) \<and>
           getArtifactPaths cfg env (artifactsDirectory cfg) w2 = (Inr paths, w') \<and>
           (\<forall>p\<in>set paths. \<exists>c. getContract cfg w' p = Inr c) \<and>
           collect_contracts cfg w' paths [] = Inr cs"
      by (intro exI [of _ w1] exI [of _ w2] exI [of _ paths]) simp
    ultimately show ?thesis by (rule conjI)
  qed (use run ok in simp_all)
  from order clean_fails build_fails success show ?thesis
    by blast
qed

text \<open>
  The example project runs clean, build and the scan in this order; with a failing compiler
  the call fails after the build, and there is no scan.
\<close>

theorem hardhat_contracts_lifecycle_witness:
  "fst (hardhat_contracts (hardhat_defaults ''app'') project_env project_world) =
     Inr [\<lparr>address = None, name = ''Token'', abi = Some token_abi\<rparr>] \<and>
   trace (snd (hardhat_contracts (hardhat_defaults ''app'') project_env project_world)) =
     [Execa ''npm'' [''hardhat'', ''clean''] ''app'',
      Execa ''npm'' [''hardhat'', ''compile''] ''app'',
      Globby [''app/artifacts/**/*.json'', ''!app/artifacts/**/build-info/**'',
              ''!app/artifacts/**/*.dbg.json'']] \<and>
   hardhat_contracts (hardhat_defaults ''app'') failing_build_env project_world =
     (Inl (Rejected ''exit 1''),
      project_world\<lparr>trace := [Execa ''npm'' [''hardhat'', ''clean''] ''app'',
                               Execa ''npm'' [''hardhat'', ''compile''] ''app'']\<rparr>)"
proof -
  obtain r w' where run:
    "hardhat_contracts (hardhat_defaults ''app'') project_env project_world = (r, w')"
    by force
  with project_run have r: "r = Inr [\<lparr>address = None, name = ''Token'', abi = Some token_abi\<rparr>]"
    by simp
  from hardhat_contracts_lifecycle [OF run,
      where cs = "[\<lparr>address = None, name = ''Token'', abi = Some token_abi\<rparr>]"] r
  have "trace w' = trace project_world @
      process_list (hardhat_defaults ''app'') project_env
        (clean_command (hardhat_defaults ''app'') project_env) @
      process_list (hardhat_defaults ''app'') project_env
        (build_command (hardhat_defaults ''app'') project_env) @
      [Globby (glob_patterns (hardhat_defaults ''app'') (artifactsDirectory (hardhat_defaults ''app'')))]"
    by blast
  then have "trace w' =
     [Execa ''npm'' [''hardhat'', ''clean''] ''app'',
      Execa ''npm'' [''hardhat'', ''compile''] ''app'',
      Globby [''app/artifacts/**/*.json'', ''!app/artifacts/**/build-info/**'',
              ''!app/artifacts/**/*.dbg.json'']]"
    by (simp add: project_processes project_world_def)
  with run have a: "trace (snd (hardhat_contracts (hardhat_defaults ''app'') project_env project_world)) =
     [Execa ''npm'' [''hardhat'', ''clean''] ''app'',
      Execa ''npm'' [''hardhat'', ''compile''] ''app'',
      Globby [''app/artifacts/**/*.json'', ''!app/artifacts/**/build-info/**'',
              ''!app/artifacts/**/*.dbg.json'']]"
    by simp
  obtain r2 w2 where run2:
    "hardhat_contracts (hardhat_defaults ''app'') failing_build_env project_world = (r2, w2)"
    by force
  from hardhat_contracts_lifecycle [OF run2,
      where ?u1.0 = "project_world\<lparr>trace := [Execa ''npm'' [''hardhat'', ''clean''] ''app'']\<rparr>"
        and ?e2.0 = "Rejected ''exit 1''"
        and ?u2.0 = "project_world\<lparr>trace := [Execa ''npm'' [''hardhat'', ''clean''] ''app'',
                             Execa ''npm'' [''hardhat'', ''compile''] ''app'']\<rparr>"]
    failing_clean failing_build
  have "r2 = Inl (Rejected ''exit 1'') \<and>
      w2 = project_world\<lparr>trace := [Execa ''npm'' [''hardhat'', ''clean''] ''app'',
                             Execa ''npm'' [''hardhat'', ''compile''] ''app'']\<rparr>"
    by blast
  with run2 project_run a show ?thesis by simp
qed

text \<open>
  Claim C9 as stated: the command string is cut at whitespace. The code cuts at each space
  character: two spaces give an empty argument, and a tab does not separate.
\<close>

theorem hardhat_command_double_space:
  "trace (snd (hardhat_contracts spaced_config example_env empty_world)) =
     [Execa ''npx'' ['''', ''hardhat'', ''clean''] ''app''] \<and>
   spec_split_whitespace ''npx  hardhat clean'' = [''npx'', ''hardhat'', ''clean''] \<and>
   split CHR '' '' [CHR ''a'', CHR 0x09, CHR ''b''] = [[CHR ''a'', CHR 0x09, CHR ''b'']] \<and>
   spec_split_whitespace [CHR ''a'', CHR 0x09, CHR ''b''] = [''a'', ''b'']"
  by (simp add: hardhat_contracts_def run_if_enabled_def clean_command_def build_command_def
      run_command_def execa_def pathExistsSync_def artifactsDirectory_def spaced_config_def
      hardhat_defaults_def example_env_def empty_world_def spec_split_whitespace_def
      is_whitespace_def)

text \<open>
  Claim C9, amended: each command string (clean, build, rebuild) is cut at every space
  character, as \<^verbatim>\<open>split(' ')\<close> does: the pieces joined by single spaces are the string again,
  no piece holds a space, the first piece is the executable and the other pieces, empty ones
  included, are its arguments; other whitespace does not separate. The process runs with the
  resolved project path as its working directory. This is the process \<^verbatim>\<open>contracts()\<close>
  starts for clean and for build, and the one the watch listener starts for rebuild.
\<close>

theorem hardhat_commands_split_on_space:
  "split CHR '' '' c \<noteq> [] \<and> join '' '' (split CHR '' '' c) = c \<and>
   (\<forall>p\<in>set (split CHR '' '' c). CHR '' '' \<notin> set p) \<and>
   run_command cfg env c w =
     execa env (hd (split CHR '' '' c)) (tl (split CHR '' '' c)) (resolve env (project cfg)) w \<and>
   (enabled (clean_command cfg env) = Some c \<longrightarrow>
      (\<exists>rest. trace (snd (hardhat_contracts cfg env w)) = trace w @ process_of cfg env c # rest)) \<and>
   (enabled (build_command cfg env) = Some c \<and>
    fst (run_if_enabled cfg env (clean_command cfg env) w) = Inr () \<longrightarrow>
      (\<exists>rest. trace (snd (hardhat_contracts cfg env w)) =
         trace w @ process_list cfg env (clean_command cfg env) @ process_of cfg env c # rest)) \<and>
   (event = ''change'' \<or> event = ''add'' \<or> event = ''unlink'' \<longrightarrow>
      trace (on_all cfg env event w) = trace w @ [process_of cfg env (rebuild_text cfg env)])"
proof (intro conjI impI)
  show "split CHR '' '' c \<noteq> []"
    by (rule split_nonempty)
  show "join '' '' (split CHR '' '' c) = c"
    by (rule join_split)
  show "\<forall>p\<in>set (split CHR '' '' c). CHR '' '' \<notin> set p"
    using split_pieces by blast
  show "run_command cfg env c w =
     execa env (hd (split CHR '' '' c)) (tl (split CHR '' '' c)) (resolve env (project cfg)) w"
    by (rule run_command_execa)
next
  assume "enabled (clean_command cfg env) = Some c"
  with hardhat_contracts_trace_clean [of cfg env w]
  show "\<exists>rest. trace (snd (hardhat_contracts cfg env w)) = trace w @ process_of cfg env c # rest"
    by simp
next
  assume "enabled (build_command cfg env) = Some c \<and>
    fst (run_if_enabled cfg env (clean_command cfg env) w) = Inr ()"
  with hardhat_contracts_trace_build [of cfg env w]
  show "\<exists>rest. trace (snd (hardhat_contracts cfg env w)) =
         trace w @ process_list cfg env (clean_command cfg env) @ process_of cfg env c # rest"
    by simp
next
  assume "event = ''change'' \<or> event = ''add'' \<or> event = ''unlink''"
  then show "trace (on_all cfg env event w) = trace w @ [process_of cfg env (rebuild_text cfg env)]"
    by (auto simp: on_all_def trace_run_command)
qed

text \<open>The clean command with two spaces: four pieces, the second one empty.\<close>

theorem hardhat_commands_split_on_space_witness:
  "enabled (clean_command spaced_config example_env) = Some ''npx  hardhat clean'' \<and>
   split CHR '' '' ''npx  hardhat clean'' = [''npx'', '''', ''hardhat'', ''clean''] \<and>
   join '' '' [''npx'', '''', ''hardhat'', ''clean''] = ''npx  hardhat clean'' \<and>
   run_command spaced_config example_env ''npx  hardhat clean'' empty_world =
     execa example_env ''npx'' ['''', ''hardhat'', ''clean''] ''app'' empty_world"
proof -
  have s: "split CHR '' '' ''npx  hardhat clean'' = [''npx'', '''', ''hardhat'', ''clean'']"
    by simp
  have e: "enabled (clean_command spaced_config example_env) = Some ''npx  hardhat clean''"
    by (simp add: clean_command_def spaced_config_def hardhat_defaults_def)
  from hardhat_commands_split_on_space [of "''npx  hardhat clean''" spaced_config example_env
      empty_world]
  have "join '' '' (split CHR '' '' ''npx  hardhat clean'') = ''npx  hardhat clean'' \<and>
    run_command spaced_config example_env ''npx  hardhat clean'' empty_world =
     execa example_env (hd (split CHR '' '' ''npx  hardhat clean''))
       (tl (split CHR '' '' ''npx  hardhat clean''))
       (resolve example_env (project spaced_config)) empty_world"
    by blast
  then have "join '' '' [''npx'', '''', ''hardhat'', ''clean''] = ''npx  hardhat clean'' \<and>
    run_command spaced_config example_env ''npx  hardhat clean'' empty_world =
     execa example_env ''npx'' ['''', ''hardhat'', ''clean''] ''app'' empty_world"
    unfolding s by (simp add: spaced_config_def hardhat_defaults_def example_env_def)
  with s e show ?thesis by blast
qed

end
